theory Spec2Isabelle
  imports Complex_Main "HOL-Library.Word"
begin

section \<open>Numeric model\<close>

text \<open>
  The pricing engine (\<^verbatim>\<open>services/quant-cpp\<close>) computes in C++ \<^verbatim>\<open>double\<close>. The embedding
  reads a \<^verbatim>\<open>double\<close> as the real number it denotes and each arithmetic operation and
  \<^verbatim>\<open><cmath>\<close> function as the exact mathematical one: \<^verbatim>\<open>std::exp\<close> is \<open>exp\<close>,
  \<^verbatim>\<open>std::log\<close> is \<open>ln\<close>, \<^verbatim>\<open>std::sqrt\<close> is \<open>sqrt\<close>, \<^verbatim>\<open>std::abs\<close> is \<open>abs\<close>,
  \<^verbatim>\<open>std::max\<close> is \<open>max\<close>. Rounding, overflow to infinity and NaN are outside the model:
  every theorem below is a statement about which formulas the code evaluates and about
  its control flow, and nothing is stated about the size of rounding errors or about
  inputs on which the binary64 computation overflows. \<^verbatim>\<open>std::size_t\<close> is a 64-bit word
  and \<^verbatim>\<open>std::uint32_t\<close> a 32-bit word, both wrapping.

  \<^verbatim>\<open>std::sqrt\<close> and \<^verbatim>\<open>std::log\<close> agree with \<open>sqrt\<close> and \<open>ln\<close> on the arguments where
  the C++ functions are defined (non-negative, positive). \<open>black_scholes\<close> floors its
  arguments before it applies them, so it stays in that domain on every input;
  \<open>monte_carlo_price\<close> applies \<^verbatim>\<open>std::sqrt\<close> to the time to maturity as it receives it, so
  the theorems about its values are stated for sanitized options.
\<close>

subsection \<open>The complementary error function\<close>

text \<open>
  \<^verbatim>\<open>std::erfc\<close> is the complementary error function \<open>1 - erf\<close>, where \<open>erf\<close> is
  given by its Maclaurin series
  \<open>erf x = 2 / sqrt pi * (\<Sum>k. (-1)^k * x^(2k+1) / (k! * (2k+1)))\<close>.
  \<open>erf_coeff\<close> are the coefficients of the same series written as a power series in
  \<open>x\<close> (the even ones vanish); the proofs differentiate it term by term.
\<close>

definition erf_term :: "real \<Rightarrow> nat \<Rightarrow> real" where
  "erf_term x k = (- 1) ^ k * x ^ (2 * k + 1) / (fact k * real (2 * k + 1))"

definition erf :: "real \<Rightarrow> real" where
  "erf x = 2 / sqrt pi * (\<Sum>k. erf_term x k)"

definition erfc :: "real \<Rightarrow> real" where
  "erfc x = 1 - erf x"

definition erf_coeff :: "nat \<Rightarrow> real" where
  "erf_coeff n =
     (if even n then 0 else (- 1) ^ ((n - 1) div 2) / (fact ((n - 1) div 2) * real n))"

section \<open>Data model (\<^verbatim>\<open>include/quant/black_scholes.hpp\<close>, \<^verbatim>\<open>monte_carlo.hpp\<close>)\<close>

record OptionInput =
  spot :: real
  strike :: real
  rate :: real
  volatility :: real
  time_to_maturity :: real
  dividend_yield :: real
  is_call :: bool

record OptionGreeks =
  price :: real
  delta :: real
  gamma :: real
  vega :: real
  theta :: real
  rho :: real

text \<open>
  The fields of \<^verbatim>\<open>ImpliedVolatilityResult\<close> carry the prefix \<open>r_\<close>: the field
  \<^verbatim>\<open>implied_volatility\<close> shares its name with the solver, and \<^verbatim>\<open>converged\<close> with the
  solver's local variable.
\<close>

record ImpliedVolatilityResult =
  r_implied_volatility :: real
  r_converged :: bool
  r_iterations :: "64 word"

text \<open>The field \<^verbatim>\<open>price\<close> of \<^verbatim>\<open>MonteCarloResult\<close> is \<open>mc_price\<close> here.\<close>

record MonteCarloResult =
  mc_price :: real
  standard_error :: real

section \<open>Sanitizing (\<^verbatim>\<open>src/grpc_service.cpp\<close>)\<close>

definition sanitize_option :: "OptionInput \<Rightarrow> OptionInput" where
  "sanitize_option option =
     option\<lparr>volatility := max (volatility option) (1 / 10 ^ 6),
            time_to_maturity := max (time_to_maturity option) (1 / 10 ^ 6),
            strike := max (strike option) (1 / 10 ^ 6),
            spot := max (spot option) (1 / 10 ^ 6)\<rparr>"

text \<open>
  A clamped option is one that \<open>sanitize_option\<close> leaves as it is: spot, strike,
  volatility and time to maturity are at least \<open>1e-6\<close>.
\<close>

definition clamped :: "OptionInput \<Rightarrow> bool" where
  "clamped option \<longleftrightarrow> sanitize_option option = option"

section \<open>Black-Scholes pricer (\<^verbatim>\<open>src/black_scholes.cpp\<close>)\<close>

text \<open>
  The two constants are \<^verbatim>\<open>constexpr double\<close>: the program holds the binary64 numbers
  nearest to the literals \<^verbatim>\<open>1.41421356237309504880\<close> and \<^verbatim>\<open>0.39894228040143267794\<close>, and
  the model takes these values. Binary64 numbers between 1 and 2 are the multiples of
  \<open>1 / 2 ^ 52\<close>, those between 1/4 and 1/2 the multiples of \<open>1 / 2 ^ 54\<close>; the lemmas
  \<open>kSqrtTwo_literal\<close> and \<open>kInvSqrtTwoPi_literal\<close> below show that each value lies within
  half a step of its literal.
\<close>

definition kSqrtTwo :: real where
  "kSqrtTwo = 6369051672525773 / 2 ^ 52"

definition kInvSqrtTwoPi :: real where
  "kInvSqrtTwoPi = 7186705221432913 / 2 ^ 54"

definition normal_pdf :: "real \<Rightarrow> real" where
  "normal_pdf x = kInvSqrtTwoPi * exp (- 0.5 * x * x)"

definition normal_cdf :: "real \<Rightarrow> real" where
  "normal_cdf x = 0.5 * erfc (- x / kSqrtTwo)"

definition black_scholes :: "OptionInput \<Rightarrow> OptionGreeks" where
  "black_scholes option =
     (let eps = 1 / 10 ^ 9;
          S = max (spot option) eps;
          K = max (strike option) eps;
          r = rate option;
          q = dividend_yield option;
          sigma = max (volatility option) eps;
          T = max (time_to_maturity option) eps;
          sqrtT = sqrt T;
          sigmaSqT = sigma * sqrtT;
          forward = S * exp (- q * T);
          discount = exp (- r * T);
          logTerm = ln (S / K);
          d1 = (logTerm + (r - q + 0.5 * sigma * sigma) * T) / sigmaSqT;
          d2 = d1 - sigmaSqT;
          pdfD1 = normal_pdf d1;
          gamma' = exp (- q * T) * pdfD1 / (S * sigmaSqT);
          vega' = S * exp (- q * T) * pdfD1 * sqrtT
      in if is_call option then
           \<lparr>price = forward * normal_cdf d1 - K * discount * normal_cdf d2,
            delta = exp (- q * T) * normal_cdf d1,
            gamma = gamma',
            vega = vega',
            theta = - (S * exp (- q * T) * pdfD1 * sigma) / (2 * sqrtT)
                    - r * K * discount * normal_cdf d2
                    + q * S * exp (- q * T) * normal_cdf d1,
            rho = K * T * discount * normal_cdf d2\<rparr>
         else
           \<lparr>price = K * discount * normal_cdf (- d2) - forward * normal_cdf (- d1),
            delta = exp (- q * T) * (normal_cdf d1 - 1),
            gamma = gamma',
            vega = vega',
            theta = - (S * exp (- q * T) * pdfD1 * sigma) / (2 * sqrtT)
                    + r * K * discount * normal_cdf (- d2)
                    - q * S * exp (- q * T) * normal_cdf (- d1),
            rho = - K * T * discount * normal_cdf (- d2)\<rparr>)"

text \<open>
  The intermediate values \<^verbatim>\<open>d1\<close> and \<^verbatim>\<open>d2\<close> of \<open>black_scholes\<close>, as functions of the
  option, for the statements below.
\<close>

definition bs_d1 :: "OptionInput \<Rightarrow> real" where
  "bs_d1 option =
     (let eps = 1 / 10 ^ 9;
          S = max (spot option) eps;
          K = max (strike option) eps;
          r = rate option;
          q = dividend_yield option;
          sigma = max (volatility option) eps;
          T = max (time_to_maturity option) eps
      in (ln (S / K) + (r - q + 0.5 * sigma * sigma) * T) / (sigma * sqrt T))"

definition bs_d2 :: "OptionInput \<Rightarrow> real" where
  "bs_d2 option =
     bs_d1 option
       - max (volatility option) (1 / 10 ^ 9) * sqrt (max (time_to_maturity option) (1 / 10 ^ 9))"

section \<open>Implied-volatility solver (\<^verbatim>\<open>src/black_scholes.cpp\<close>)\<close>

text \<open>
  The local variables of \<^verbatim>\<open>implied_volatility\<close>. The \<^verbatim>\<open>for\<close> loop leaves through
  \<^verbatim>\<open>break\<close> exactly where it sets \<^verbatim>\<open>converged\<close>, so the loop of the model runs while
  \<open>iteration < max_iterations\<close> and \<open>converged\<close> is unset; \<open>iv_body\<close> is one pass
  through the loop body, with the \<^verbatim>\<open>++iteration\<close> of the loop header when the pass
  reaches the end of the body.
\<close>

record iv_state =
  low :: real
  high :: real
  mid :: real
  converged :: bool
  iteration :: "64 word"

definition iv_init :: "real \<Rightarrow> real \<Rightarrow> iv_state" where
  "iv_init lower_bound upper_bound =
     \<lparr>low = lower_bound, high = upper_bound, mid = 0, converged = False, iteration = 0\<rparr>"

definition iv_body :: "OptionInput \<Rightarrow> real \<Rightarrow> real \<Rightarrow> iv_state \<Rightarrow> iv_state" where
  "iv_body option target_price tolerance s =
     (let m = 0.5 * (low s + high s);
          guess = option\<lparr>volatility := m\<rparr>;
          p = price (black_scholes guess);
          diff = p - target_price
      in if \<bar>diff\<bar> < tolerance then s\<lparr>mid := m, converged := True\<rparr>
         else
           let s' = (if diff > 0 then s\<lparr>mid := m, high := m\<rparr> else s\<lparr>mid := m, low := m\<rparr>)
           in if \<bar>high s' - low s'\<bar> < tolerance then s'\<lparr>converged := True\<rparr>
              else s'\<lparr>iteration := iteration s' + 1\<rparr>)"

function iv_loop :: "OptionInput \<Rightarrow> real \<Rightarrow> real \<Rightarrow> 64 word \<Rightarrow> iv_state \<Rightarrow> iv_state" where
  "iv_loop option target_price tolerance max_iterations s =
     (if iteration s < max_iterations \<and> \<not> converged s
      then iv_loop option target_price tolerance max_iterations
             (iv_body option target_price tolerance s)
      else s)"
  by pat_completeness auto
termination
proof (relation "measure (\<lambda>(option, target_price, tolerance, max_iterations, s).
          2 * (unat max_iterations - unat (iteration s)) + (if converged s then 0 else 1))")
  show "wf (measure (\<lambda>(option, target_price, tolerance, max_iterations, s).
          2 * (unat max_iterations - unat (iteration s)) + (if converged s then 0 else 1)))"
    by simp
next
  fix option :: OptionInput and target_price tolerance :: real
    and max_iterations :: "64 word" and s :: iv_state
  assume a: "iteration s < max_iterations \<and> \<not> converged s"
  then have lt: "unat (iteration s) < unat max_iterations"
    by (simp add: word_less_nat_alt)
  have "unat (iteration s) + 1 < 2 ^ 64"
    using lt unsigned_less [of max_iterations, where 'a = nat] by simp
  then have suc: "unat (iteration s + 1) = unat (iteration s) + 1"
    by (simp add: unat_word_ariths)
  show "((option, target_price, tolerance, max_iterations,
           iv_body option target_price tolerance s),
          (option, target_price, tolerance, max_iterations, s))
        \<in> measure (\<lambda>(option, target_price, tolerance, max_iterations, s).
          2 * (unat max_iterations - unat (iteration s)) + (if converged s then 0 else 1))"
    using a lt suc by (auto simp: iv_body_def Let_def)
qed

definition implied_volatility ::
  "OptionInput \<Rightarrow> real \<Rightarrow> real \<Rightarrow> real \<Rightarrow> real \<Rightarrow> 64 word \<Rightarrow> ImpliedVolatilityResult" where
  "implied_volatility option target_price lower_bound upper_bound tolerance max_iterations =
     (let s = iv_loop option target_price tolerance max_iterations
                (iv_init lower_bound upper_bound)
      in \<lparr>r_implied_volatility = mid s,
          r_converged = converged s,
          r_iterations = iteration s + 1\<rparr>)"

declare iv_loop.simps [simp del]

text \<open>
  The values \<^verbatim>\<open>mid\<close> and \<^verbatim>\<open>diff\<close> that a pass through the loop body computes from the
  state it starts in, for the statements below.
\<close>

definition iv_mid :: "iv_state \<Rightarrow> real" where
  "iv_mid s = 0.5 * (low s + high s)"

definition iv_diff :: "OptionInput \<Rightarrow> real \<Rightarrow> iv_state \<Rightarrow> real" where
  "iv_diff option target_price s =
     price (black_scholes (option\<lparr>volatility := iv_mid s\<rparr>)) - target_price"

text \<open>
  The states after each executed pass through the loop body, in order. Its length is the
  number of iterations the solver executes.
\<close>

function iv_trace ::
  "OptionInput \<Rightarrow> real \<Rightarrow> real \<Rightarrow> 64 word \<Rightarrow> iv_state \<Rightarrow> iv_state list" where
  "iv_trace option target_price tolerance max_iterations s =
     (if iteration s < max_iterations \<and> \<not> converged s
      then iv_body option target_price tolerance s
             # iv_trace option target_price tolerance max_iterations
                 (iv_body option target_price tolerance s)
      else [])"
  by pat_completeness auto
termination
proof (relation "measure (\<lambda>(option, target_price, tolerance, max_iterations, s).
          2 * (unat max_iterations - unat (iteration s)) + (if converged s then 0 else 1))")
  show "wf (measure (\<lambda>(option, target_price, tolerance, max_iterations, s).
          2 * (unat max_iterations - unat (iteration s)) + (if converged s then 0 else 1)))"
    by simp
next
  fix option :: OptionInput and target_price tolerance :: real
    and max_iterations :: "64 word" and s :: iv_state
  assume a: "iteration s < max_iterations \<and> \<not> converged s"
  then have lt: "unat (iteration s) < unat max_iterations"
    by (simp add: word_less_nat_alt)
  have "unat (iteration s) + 1 < 2 ^ 64"
    using lt unsigned_less [of max_iterations, where 'a = nat] by simp
  then have suc: "unat (iteration s + 1) = unat (iteration s) + 1"
    by (simp add: unat_word_ariths)
  show "((option, target_price, tolerance, max_iterations,
           iv_body option target_price tolerance s),
          (option, target_price, tolerance, max_iterations, s))
        \<in> measure (\<lambda>(option, target_price, tolerance, max_iterations, s).
          2 * (unat max_iterations - unat (iteration s)) + (if converged s then 0 else 1))"
    using a lt suc by (auto simp: iv_body_def Let_def)
qed

declare iv_trace.simps [simp del]

subsection \<open>The bisection of the specification\<close>

text \<open>
  The algorithm as the specification words it (section 4.2, steps 1 to 6), over an
  arbitrary pricing function \<open>pr\<close> of the volatility and with the iteration budget as a
  natural number: each iteration sets \<open>mid = (low + high) / 2\<close> and
  \<open>diff = pr mid - target_price\<close>; it stops converged if \<open>\<bar>diff\<bar> < tolerance\<close>; otherwise
  it narrows (\<open>high = mid\<close> if \<open>diff > 0\<close>, else \<open>low = mid\<close>) and stops converged if
  \<open>\<bar>high - low\<bar> < tolerance\<close>; when the budget is used up it returns the last \<open>mid\<close>,
  not converged. \<open>last_mid\<close> is the last \<open>mid\<close> computed so far.
\<close>

fun bisection_spec ::
  "(real \<Rightarrow> real) \<Rightarrow> real \<Rightarrow> real \<Rightarrow> nat \<Rightarrow> real \<Rightarrow> real \<Rightarrow> real \<Rightarrow> real \<times> bool" where
  "bisection_spec pr target_price tolerance 0 lo hi last_mid = (last_mid, False)"
| "bisection_spec pr target_price tolerance (Suc n) lo hi last_mid =
     (let m = (lo + hi) / 2;
          diff = pr m - target_price
      in if \<bar>diff\<bar> < tolerance then (m, True)
         else
           let lo' = (if diff > 0 then lo else m);
               hi' = (if diff > 0 then m else hi)
           in if \<bar>hi' - lo'\<bar> < tolerance then (m, True)
              else bisection_spec pr target_price tolerance n lo' hi' m)"

section \<open>Monte Carlo simulator (\<^verbatim>\<open>src/monte_carlo.cpp\<close>)\<close>

text \<open>
  \<^verbatim>\<open>std::mt19937\<close> and \<^verbatim>\<open>std::normal_distribution\<close> belong to the C++ standard library.
  The model takes their joint effect as a parameter \<open>standard_normal\<close>: for a seed, the
  sequence of variates that successive calls \<^verbatim>\<open>standard_normal(rng)\<close> return.

  \<open>mc_simulate\<close> is the first loop: it appends each payoff to \<^verbatim>\<open>payoffs\<close> and adds it to
  \<^verbatim>\<open>sum\<close> (\<open>payoff_sum\<close> here). \<open>mc_variance_sum\<close> is the second loop over \<^verbatim>\<open>payoffs\<close>.
\<close>

function mc_simulate ::
  "(nat \<Rightarrow> real) \<Rightarrow> real \<Rightarrow> real \<Rightarrow> real \<Rightarrow> real \<Rightarrow> bool \<Rightarrow> 32 word \<Rightarrow> 32 word
     \<Rightarrow> real list \<Rightarrow> real \<Rightarrow> real list \<times> real" where
  "mc_simulate draws S K drift diffusion call paths i payoffs payoff_sum =
     (if i < paths then
        (let z = draws (unat i);
             terminal = S * exp (drift + diffusion * z);
             payoff = (if call then max (terminal - K) 0 else max (K - terminal) 0)
         in mc_simulate draws S K drift diffusion call paths (i + 1)
              (payoffs @ [payoff]) (payoff_sum + payoff))
      else (payoffs, payoff_sum))"
  by pat_completeness auto
termination
proof (relation "measure (\<lambda>(draws, S, K, drift, diffusion, call, paths, i, payoffs, payoff_sum).
          unat paths - unat i)")
  show "wf (measure (\<lambda>(draws, S, K, drift, diffusion, call, paths, i, payoffs, payoff_sum).
          unat paths - unat i))"
    by simp
next
  fix draws :: "nat \<Rightarrow> real" and S K drift diffusion :: real and call :: bool
    and paths i :: "32 word" and payoffs :: "real list" and payoff_sum z terminal payoff :: real
  assume a: "i < paths"
  then have lt: "unat i < unat paths"
    by (simp add: word_less_nat_alt)
  have "unat i + 1 < 2 ^ 32"
    using lt unsigned_less [of paths, where 'a = nat] by simp
  then have "unat (i + 1) = unat i + 1"
    by (simp add: unat_word_ariths)
  then show "((draws, S, K, drift, diffusion, call, paths, i + 1, payoffs @ [payoff],
            payoff_sum + payoff),
           (draws, S, K, drift, diffusion, call, paths, i, payoffs, payoff_sum))
        \<in> measure (\<lambda>(draws, S, K, drift, diffusion, call, paths, i, payoffs, payoff_sum).
          unat paths - unat i)"
    using lt by simp
qed

declare mc_simulate.simps [simp del]

definition mc_variance_sum :: "real \<Rightarrow> real list \<Rightarrow> real" where
  "mc_variance_sum mean_payoff payoffs =
     fold (\<lambda>payoff variance_sum.
             let diff = payoff - mean_payoff in variance_sum + diff * diff)
          payoffs 0"

definition monte_carlo_price ::
  "(32 word \<Rightarrow> nat \<Rightarrow> real) \<Rightarrow> OptionInput \<Rightarrow> 32 word \<Rightarrow> 32 word \<Rightarrow> MonteCarloResult" where
  "monte_carlo_price standard_normal option paths seed =
     (if paths = 0 then \<lparr>mc_price = 0, standard_error = 0\<rparr>
      else
        let S = spot option;
            K = strike option;
            r = rate option;
            q = dividend_yield option;
            sigma = volatility option;
            T = time_to_maturity option;
            drift = (r - q - 0.5 * sigma * sigma) * T;
            diffusion = sigma * sqrt T;
            discount = exp (- r * T);
            (payoffs, payoff_sum) = mc_simulate (standard_normal seed) S K drift diffusion
                               (is_call option) paths 0 [] 0;
            mean_payoff = payoff_sum / real (unat paths);
            variance_sum = mc_variance_sum mean_payoff payoffs;
            variance = variance_sum / real (unat paths);
            stddev = sqrt variance;
            standard_error' = stddev / sqrt (real (unat paths))
        in \<lparr>mc_price = discount * mean_payoff,
            standard_error = discount * standard_error'\<rparr>)"

text \<open>
  The payoff that one pass through the first loop computes from the variate \<open>z\<close> and the
  values the simulator computes before the loop.
\<close>

definition mc_path_payoff :: "real \<Rightarrow> real \<Rightarrow> real \<Rightarrow> real \<Rightarrow> bool \<Rightarrow> real \<Rightarrow> real" where
  "mc_path_payoff S K drift diffusion call z =
     (let terminal = S * exp (drift + diffusion * z)
      in if call then max (terminal - K) 0 else max (K - terminal) 0)"

text \<open>The same payoff as a function of the option, for the statements below.\<close>

definition mc_payoff :: "OptionInput \<Rightarrow> real \<Rightarrow> real" where
  "mc_payoff option z =
     (let S = spot option;
          K = strike option;
          r = rate option;
          q = dividend_yield option;
          sigma = volatility option;
          T = time_to_maturity option;
          drift = (r - q - 0.5 * sigma * sigma) * T;
          diffusion = sigma * sqrt T;
          terminal = S * exp (drift + diffusion * z)
      in if is_call option then max (terminal - K) 0 else max (K - terminal) 0)"

section \<open>Reference inputs (\<^verbatim>\<open>tests/test_black_scholes.cpp\<close>)\<close>

definition call_option :: OptionInput where
  "call_option =
     \<lparr>spot = 100, strike = 100, rate = 0.01, volatility = 0.2, time_to_maturity = 1,
      dividend_yield = 0, is_call = True\<rparr>"

text \<open>The option of \<^verbatim>\<open>tests/test_monte_carlo.cpp\<close>.\<close>

definition mc_option :: OptionInput where
  "mc_option =
     \<lparr>spot = 120, strike = 110, rate = 0.015, volatility = 0.25, time_to_maturity = 0.75,
      dividend_yield = 0, is_call = True\<rparr>"

section \<open>The error function\<close>

lemma summable_erf_term: "summable (erf_term x)"
proof (rule summable_comparison_test')
  show "summable (\<lambda>k. \<bar>x\<bar> * (inverse (fact k) * (x\<^sup>2) ^ k))"
    by (intro summable_mult summable_exp)
  show "norm (erf_term x k) \<le> \<bar>x\<bar> * (inverse (fact k) * (x\<^sup>2) ^ k)" if "k \<ge> 0" for k
  proof -
    have "norm (erf_term x k) = \<bar>x\<bar> * (inverse (fact k) * (x\<^sup>2) ^ k) / real (2 * k + 1)"
      by (simp add: erf_term_def abs_mult power_abs power_mult divide_simps power_even_abs)
    also have "\<dots> \<le> \<bar>x\<bar> * (inverse (fact k) * (x\<^sup>2) ^ k) / 1"
      by (intro divide_left_mono) (auto intro!: mult_nonneg_nonneg)
    finally show ?thesis by simp
  qed
qed

lemma erf_coeff_sums: "(\<lambda>n. erf_coeff n * x ^ n) sums (\<Sum>k. erf_term x k)"
proof -
  have "(\<lambda>n. if even n then 0 else erf_term x ((n - 1) div 2)) sums (\<Sum>k. erf_term x k)"
    by (rule sums_if' [OF summable_sums [OF summable_erf_term]])
  moreover have "(if even n then 0 else erf_term x ((n - 1) div 2)) = erf_coeff n * x ^ n" for n
  proof (cases "even n")
    case True
    then show ?thesis by (simp add: erf_coeff_def)
  next
    case False
    then obtain k where n: "n = 2 * k + 1" by (auto elim: oddE)
    show ?thesis by (simp add: n erf_coeff_def erf_term_def)
  qed
  ultimately show ?thesis by simp
qed

lemma erf_power_series: "erf x = 2 / sqrt pi * (\<Sum>n. erf_coeff n * x ^ n)"
  using erf_coeff_sums [of x] by (simp add: erf_def sums_iff)

lemma diffs_erf_coeff:
  "diffs erf_coeff n = (if even n then (- 1) ^ (n div 2) / fact (n div 2) else 0)"
  by (auto simp: diffs_def erf_coeff_def simp del: of_nat_Suc)

lemma diffs_erf_coeff_sums: "(\<lambda>n. diffs erf_coeff n * x ^ n) sums exp (- (x\<^sup>2))"
proof -
  have "(\<lambda>k. (- (x\<^sup>2)) ^ k /\<^sub>R fact k) sums exp (- (x\<^sup>2))"
    by (rule exp_converges)
  from sums_if [OF sums_zero this]
  have "(\<lambda>n. if even n then (- (x\<^sup>2)) ^ (n div 2) /\<^sub>R fact (n div 2) else 0)
          sums exp (- (x\<^sup>2))"
    by simp
  moreover have "(if even n then (- (x\<^sup>2)) ^ (n div 2) /\<^sub>R fact (n div 2) else 0)
      = diffs erf_coeff n * x ^ n" for n
  proof (cases "even n")
    case True
    then obtain k where n: "n = 2 * k" by (auto elim: evenE)
    show ?thesis
      by (simp add: n diffs_erf_coeff power_mult power_minus [of "x\<^sup>2" k] divide_inverse)
  next
    case False
    then show ?thesis by (simp add: diffs_erf_coeff)
  qed
  ultimately show ?thesis by simp
qed

lemma DERIV_erf: "DERIV erf x :> 2 / sqrt pi * exp (- (x\<^sup>2))"
proof -
  have "((\<lambda>x. \<Sum>n. erf_coeff n * x ^ n) has_field_derivative (\<Sum>n. diffs erf_coeff n * x ^ n)) (at x)"
    by (rule termdiffs_strong_converges_everywhere) (use erf_coeff_sums in \<open>auto simp: sums_iff\<close>)
  moreover have "(\<Sum>n. diffs erf_coeff n * x ^ n) = exp (- (x\<^sup>2))"
    using diffs_erf_coeff_sums [of x] by (simp add: sums_iff)
  ultimately have "((\<lambda>x. \<Sum>n. erf_coeff n * x ^ n) has_field_derivative exp (- (x\<^sup>2))) (at x)"
    by simp
  from DERIV_cmult [OF this, of "2 / sqrt pi"]
  have "((\<lambda>x. 2 / sqrt pi * (\<Sum>n. erf_coeff n * x ^ n)) has_field_derivative
          2 / sqrt pi * exp (- (x\<^sup>2))) (at x)" .
  moreover have "erf = (\<lambda>x. 2 / sqrt pi * (\<Sum>n. erf_coeff n * x ^ n))"
    by (rule ext) (rule erf_power_series)
  ultimately show ?thesis by simp
qed

lemma DERIV_erfc: "DERIV erfc x :> - (2 / sqrt pi * exp (- (x\<^sup>2)))"
proof -
  have "((\<lambda>x. 1 - erf x) has_field_derivative 0 - 2 / sqrt pi * exp (- (x\<^sup>2))) (at x)"
    by (intro DERIV_diff DERIV_const DERIV_erf)
  moreover have "erfc = (\<lambda>x. 1 - erf x)"
    by (rule ext) (rule erfc_def)
  ultimately show ?thesis by simp
qed

text \<open>
  With \<open>DERIV_erf\<close>, the value at 0 determines the function: \<open>erf\<close> is the error function
  \<open>2 / sqrt pi\<close> times the integral of \<open>exp (- t\<^sup>2)\<close> from 0 to \<open>x\<close>.
\<close>

lemma erf_zero: "erf 0 = 0"
  by (simp add: erf_def erf_term_def)

section \<open>The constants of the pricer\<close>

text \<open>Each constant is the binary64 number nearest to its literal in the source.\<close>

lemma kSqrtTwo_literal: "\<bar>kSqrtTwo - 1.41421356237309504880\<bar> < 1 / 2 ^ 53"
  unfolding kSqrtTwo_def by simp

lemma kInvSqrtTwoPi_literal: "\<bar>kInvSqrtTwoPi - 0.39894228040143267794\<bar> < 1 / 2 ^ 55"
  unfolding kInvSqrtTwoPi_def by simp

text \<open>
  \<open>kSqrtTwo\<close> is not the square root of two, which is irrational: it lies above it, by
  less than half a step of the binary64 grid, so it is the binary64 number nearest to the
  square root of two.
\<close>

lemma kSqrtTwo_above: "sqrt 2 < kSqrtTwo"
  unfolding kSqrtTwo_def by (rule real_less_lsqrt) (simp_all add: power2_eq_square)

lemma kSqrtTwo_nearest: "\<bar>kSqrtTwo - sqrt 2\<bar> < 1 / 2 ^ 53"
proof -
  have "kSqrtTwo - 1 / 2 ^ 53 < sqrt 2"
    unfolding kSqrtTwo_def by (rule real_less_rsqrt) (simp add: power2_eq_square)
  with kSqrtTwo_above show ?thesis
    by simp
qed

text \<open>
  For \<open>kInvSqrtTwoPi\<close>, \<open>pi\<close> is enclosed to 17 decimals by Machin's formula: the partial
  sums of the alternating series of \<open>arctan\<close> lie below its value when they have an even
  number of terms and above when odd.
\<close>

lemma arctan_partial_sums:
  fixes x :: real
  assumes "0 < x" and "x \<le> 1"
  shows "(\<Sum>i<2 * n. (- 1) ^ i * (1 / real (i * 2 + 1) * x ^ (i * 2 + 1))) \<le> arctan x"
    and "arctan x \<le> (\<Sum>i<2 * n + 1. (- 1) ^ i * (1 / real (i * 2 + 1) * x ^ (i * 2 + 1)))"
proof -
  have x: "\<bar>x\<bar> \<le> 1"
    using assms by simp
  have pos: "0 < 1 / real (0 * 2 + 1) * x ^ (0 * 2 + 1)"
    using assms(1) by simp
  from summable_Leibniz(2) [OF zeroseq_arctan_series [OF x] monoseq_arctan_series [OF x]] pos
  have "(\<Sum>i. (- 1) ^ i * (1 / real (i * 2 + 1) * x ^ (i * 2 + 1)))
      \<in> {\<Sum>i<2 * n. (- 1) ^ i * (1 / real (i * 2 + 1) * x ^ (i * 2 + 1))
          .. \<Sum>i<2 * n + 1. (- 1) ^ i * (1 / real (i * 2 + 1) * x ^ (i * 2 + 1))}"
    by blast
  then show "(\<Sum>i<2 * n. (- 1) ^ i * (1 / real (i * 2 + 1) * x ^ (i * 2 + 1))) \<le> arctan x"
    and "arctan x \<le> (\<Sum>i<2 * n + 1. (- 1) ^ i * (1 / real (i * 2 + 1) * x ^ (i * 2 + 1)))"
    unfolding arctan_series [OF x] by simp_all
qed

lemma arctan_fifth:
  "1973955598498807582 / 10 ^ 19 \<le> arctan (1 / 5)"
  "arctan (1 / 5) \<le> 1973955598498807584 / 10 ^ 19"
proof -
  have "(1973955598498807582 / 10 ^ 19 :: real)
      \<le> (\<Sum>i<2 * 6. (- 1) ^ i * (1 / real (i * 2 + 1) * (1 / 5) ^ (i * 2 + 1)))"
    by (simp add: eval_nat_numeral)
  also have "\<dots> \<le> arctan (1 / 5)"
    by (rule arctan_partial_sums) simp_all
  finally show "1973955598498807582 / 10 ^ 19 \<le> arctan (1 / 5)" .
  have "arctan (1 / 5)
      \<le> (\<Sum>i<2 * 6 + 1. (- 1) ^ i * (1 / real (i * 2 + 1) * (1 / 5) ^ (i * 2 + 1)))"
    by (rule arctan_partial_sums) simp_all
  also have "\<dots> \<le> 1973955598498807584 / 10 ^ 19"
    by (simp add: eval_nat_numeral)
  finally show "arctan (1 / 5) \<le> 1973955598498807584 / 10 ^ 19" .
qed

lemma arctan_239th:
  "418407600207472386 / 10 ^ 20 \<le> arctan (1 / 239)"
  "arctan (1 / 239) \<le> 418407600207472387 / 10 ^ 20"
proof -
  have "(418407600207472386 / 10 ^ 20 :: real)
      \<le> (\<Sum>i<2 * 2. (- 1) ^ i * (1 / real (i * 2 + 1) * (1 / 239) ^ (i * 2 + 1)))"
    by (simp add: eval_nat_numeral)
  also have "\<dots> \<le> arctan (1 / 239)"
    by (rule arctan_partial_sums) simp_all
  finally show "418407600207472386 / 10 ^ 20 \<le> arctan (1 / 239)" .
  have "arctan (1 / 239)
      \<le> (\<Sum>i<2 * 2 + 1. (- 1) ^ i * (1 / real (i * 2 + 1) * (1 / 239) ^ (i * 2 + 1)))"
    by (rule arctan_partial_sums) simp_all
  also have "\<dots> \<le> 418407600207472387 / 10 ^ 20"
    by (simp add: eval_nat_numeral)
  finally show "arctan (1 / 239) \<le> 418407600207472387 / 10 ^ 20" .
qed

lemma pi_bounds:
  "3.14159265358979323 < pi"
  "pi < 3.14159265358979324"
proof -
  have "pi = 16 * arctan (1 / 5) - 4 * arctan (1 / 239)"
    using machin by simp
  then show "3.14159265358979323 < pi" and "pi < 3.14159265358979324"
    using arctan_fifth arctan_239th by simp_all
qed

text \<open>
  \<open>kInvSqrtTwoPi\<close> is the binary64 number nearest to \<open>1 / sqrt (2 * pi)\<close>, the factor of
  the standard normal density.
\<close>

lemma inv_sqrt_between:
  fixes l u y :: real
  assumes "0 < l" and "0 < u" and "0 < y" and "y * l\<^sup>2 < 1" and "1 < y * u\<^sup>2"
  shows "l < 1 / sqrt y" and "1 / sqrt y < u"
proof -
  have s: "0 < sqrt y"
    using assms(3) by simp
  have "(sqrt y * l)\<^sup>2 < 1\<^sup>2"
    using assms(3,4) by (simp add: power_mult_distrib)
  then have "sqrt y * l < 1"
    by (rule power2_less_imp_less) simp
  then show "l < 1 / sqrt y"
    using s by (simp add: field_simps)
  have "1\<^sup>2 < (sqrt y * u)\<^sup>2"
    using assms(3,5) by (simp add: power_mult_distrib)
  then have "1 < sqrt y * u"
    by (rule power2_less_imp_less) (use s assms(2) in simp)
  then show "1 / sqrt y < u"
    using s by (simp add: field_simps)
qed

lemma kInvSqrtTwoPi_nearest: "\<bar>kInvSqrtTwoPi - 1 / sqrt (2 * pi)\<bar> < 1 / 2 ^ 55"
proof -
  define l :: real where "l = 7186705221432913 / 2 ^ 54 - 1 / 2 ^ 55"
  define u :: real where "u = 7186705221432913 / 2 ^ 54 + 1 / 2 ^ 55"
  have l: "0 < l" and u: "0 < u"
    by (simp_all add: l_def u_def)
  have "2 * pi * l\<^sup>2 < 2 * 3.14159265358979324 * l\<^sup>2"
    using pi_bounds(2) l by simp
  also have "\<dots> < 1"
    by (simp add: l_def power2_eq_square)
  finally have 1: "2 * pi * l\<^sup>2 < 1" .
  have "1 < 2 * 3.14159265358979323 * u\<^sup>2"
    by (simp add: u_def power2_eq_square)
  also have "\<dots> < 2 * pi * u\<^sup>2"
    using pi_bounds(1) u by simp
  finally have 2: "1 < 2 * pi * u\<^sup>2" .
  have "l < 1 / sqrt (2 * pi)" and "1 / sqrt (2 * pi) < u"
    using inv_sqrt_between [OF l u _ 1 2] by simp_all
  then show ?thesis
    unfolding kInvSqrtTwoPi_def l_def u_def by linarith
qed

section \<open>Properties of the Black-Scholes pricer\<close>

lemma clamped_iff:
  "clamped option \<longleftrightarrow>
     1 / 10 ^ 6 \<le> spot option \<and> 1 / 10 ^ 6 \<le> strike option \<and>
     1 / 10 ^ 6 \<le> volatility option \<and> 1 / 10 ^ 6 \<le> time_to_maturity option"
proof -
  have "sanitize_option option = option \<longleftrightarrow>
     max (volatility option) (1 / 10 ^ 6) = volatility option \<and>
     max (time_to_maturity option) (1 / 10 ^ 6) = time_to_maturity option \<and>
     max (strike option) (1 / 10 ^ 6) = strike option \<and>
     max (spot option) (1 / 10 ^ 6) = spot option"
    unfolding sanitize_option_def by (cases option) auto
  then show ?thesis
    unfolding clamped_def by (auto simp: max_def)
qed

lemma clamped_floor:
  assumes "clamped option"
  shows "max (spot option) (1 / 10 ^ 9) = spot option"
    and "max (strike option) (1 / 10 ^ 9) = strike option"
    and "max (volatility option) (1 / 10 ^ 9) = volatility option"
    and "max (time_to_maturity option) (1 / 10 ^ 9) = time_to_maturity option"
  using assms unfolding clamped_iff by (auto simp: max_def)

lemma clamped_is_call [simp]: "clamped (option\<lparr>is_call := c\<rparr>) = clamped option"
  by (simp add: clamped_iff)

lemma clamped_call_option: "clamped call_option"
  by (simp add: clamped_iff call_option_def)

lemma clamped_mc_option: "clamped mc_option"
  by (simp add: clamped_iff mc_option_def)

lemma black_scholes_call:
  assumes "is_call option"
  shows "black_scholes option =
     (let S = max (spot option) (1 / 10 ^ 9);
          K = max (strike option) (1 / 10 ^ 9);
          r = rate option;
          q = dividend_yield option;
          sigma = max (volatility option) (1 / 10 ^ 9);
          T = max (time_to_maturity option) (1 / 10 ^ 9);
          d1 = bs_d1 option;
          d2 = bs_d2 option
      in \<lparr>price = S * exp (- q * T) * normal_cdf d1 - K * exp (- r * T) * normal_cdf d2,
          delta = exp (- q * T) * normal_cdf d1,
          gamma = exp (- q * T) * normal_pdf d1 / (S * (sigma * sqrt T)),
          vega = S * exp (- q * T) * normal_pdf d1 * sqrt T,
          theta = - (S * exp (- q * T) * normal_pdf d1 * sigma) / (2 * sqrt T)
                  - r * K * exp (- r * T) * normal_cdf d2
                  + q * S * exp (- q * T) * normal_cdf d1,
          rho = K * T * exp (- r * T) * normal_cdf d2\<rparr>)"
  unfolding black_scholes_def bs_d1_def bs_d2_def Let_def
  by (simp only: assms if_True)

lemma black_scholes_put:
  assumes "\<not> is_call option"
  shows "black_scholes option =
     (let S = max (spot option) (1 / 10 ^ 9);
          K = max (strike option) (1 / 10 ^ 9);
          r = rate option;
          q = dividend_yield option;
          sigma = max (volatility option) (1 / 10 ^ 9);
          T = max (time_to_maturity option) (1 / 10 ^ 9);
          d1 = bs_d1 option;
          d2 = bs_d2 option
      in \<lparr>price = K * exp (- r * T) * normal_cdf (- d2) - S * exp (- q * T) * normal_cdf (- d1),
          delta = exp (- q * T) * (normal_cdf d1 - 1),
          gamma = exp (- q * T) * normal_pdf d1 / (S * (sigma * sqrt T)),
          vega = S * exp (- q * T) * normal_pdf d1 * sqrt T,
          theta = - (S * exp (- q * T) * normal_pdf d1 * sigma) / (2 * sqrt T)
                  + r * K * exp (- r * T) * normal_cdf (- d2)
                  - q * S * exp (- q * T) * normal_cdf (- d1),
          rho = - K * T * exp (- r * T) * normal_cdf (- d2)\<rparr>)"
  unfolding black_scholes_def bs_d1_def bs_d2_def Let_def
  by (simp only: assms if_False)

lemma bs_d1_is_call [simp]: "bs_d1 (option\<lparr>is_call := c\<rparr>) = bs_d1 option"
  by (simp add: bs_d1_def)

lemma bs_d2_is_call [simp]: "bs_d2 (option\<lparr>is_call := c\<rparr>) = bs_d2 option"
  by (simp add: bs_d2_def)

lemma bs_d1_clamped:
  assumes "clamped option"
  shows "bs_d1 option =
     (ln (spot option / strike option)
        + (rate option - dividend_yield option + 0.5 * (volatility option)\<^sup>2)
            * time_to_maturity option)
       / (volatility option * sqrt (time_to_maturity option))"
  unfolding bs_d1_def Let_def clamped_floor [OF assms] power2_eq_square
  by (simp only: mult.assoc)

lemma bs_d2_clamped:
  assumes "clamped option"
  shows "bs_d2 option =
     (ln (spot option / strike option)
        + (rate option - dividend_yield option + 0.5 * (volatility option)\<^sup>2)
            * time_to_maturity option)
       / (volatility option * sqrt (time_to_maturity option))
     - volatility option * sqrt (time_to_maturity option)"
  unfolding bs_d2_def clamped_floor [OF assms] bs_d1_clamped [OF assms] ..

text \<open>
  C3. For every clamped option with the call flag set, \<open>black_scholes\<close> returns the
  closed-form values: with \<open>d1 = (ln (S / K) + (r - q + 0.5 * sigma\<^sup>2) * T) / (sigma * sqrt T)\<close>
  and \<open>d2 = d1 - sigma * sqrt T\<close>, the price is
  \<open>S * exp (- q * T) * Phi d1 - K * exp (- r * T) * Phi d2\<close>, delta is
  \<open>exp (- q * T) * Phi d1\<close>, theta is
  \<open>- (S * exp (- q * T) * phi d1 * sigma) / (2 * sqrt T) - r * K * exp (- r * T) * Phi d2
     + q * S * exp (- q * T) * Phi d1\<close>
  and rho is \<open>K * T * exp (- r * T) * Phi d2\<close>. Here \<open>Phi x = 0.5 * erfc (- x / sqrt_two)\<close>
  is the standard normal distribution function and
  \<open>phi x = inv_sqrt_two_pi * exp (- 0.5 * x * x)\<close> the standard normal density, in which
  \<open>sqrt_two\<close> and \<open>inv_sqrt_two_pi\<close> are the two binary64 constants of the program,
  written out: the binary64 numbers nearest to \<open>sqrt 2\<close> and to \<open>1 / sqrt (2 * pi)\<close>, each
  within half a step of the binary64 grid of the number it stands for.
\<close>

theorem black_scholes_call_closed_form:
  assumes "clamped option" and "is_call option"
  shows "(let S = spot option; K = strike option; r = rate option;
              q = dividend_yield option; sigma = volatility option;
              T = time_to_maturity option;
              d1 = (ln (S / K) + (r - q + 0.5 * sigma\<^sup>2) * T) / (sigma * sqrt T);
              d2 = d1 - sigma * sqrt T;
              sqrt_two = 6369051672525773 / 2 ^ 52;
              inv_sqrt_two_pi = 7186705221432913 / 2 ^ 54;
              Phi = (\<lambda>x. 0.5 * erfc (- x / sqrt_two));
              phi = (\<lambda>x. inv_sqrt_two_pi * exp (- 0.5 * x * x))
          in price (black_scholes option)
               = S * exp (- q * T) * Phi d1 - K * exp (- r * T) * Phi d2
           \<and> delta (black_scholes option) = exp (- q * T) * Phi d1
           \<and> theta (black_scholes option)
               = - (S * exp (- q * T) * phi d1 * sigma) / (2 * sqrt T)
                 - r * K * exp (- r * T) * Phi d2 + q * S * exp (- q * T) * Phi d1
           \<and> rho (black_scholes option) = K * T * exp (- r * T) * Phi d2
           \<and> \<bar>sqrt_two - sqrt 2\<bar> < 1 / 2 ^ 53
           \<and> \<bar>inv_sqrt_two_pi - 1 / sqrt (2 * pi)\<bar> < 1 / 2 ^ 55)"
proof -
  have "\<bar>6369051672525773 / 2 ^ 52 - sqrt 2\<bar> < 1 / 2 ^ 53"
    and "\<bar>7186705221432913 / 2 ^ 54 - 1 / sqrt (2 * pi)\<bar> < 1 / 2 ^ 55"
    using kSqrtTwo_nearest kInvSqrtTwoPi_nearest
    unfolding kSqrtTwo_def kInvSqrtTwoPi_def .
  then show ?thesis
    unfolding black_scholes_call [OF assms(2)] Let_def clamped_floor [OF assms(1)]
      bs_d1_clamped [OF assms(1)] bs_d2_clamped [OF assms(1)] normal_cdf_def normal_pdf_def
      kSqrtTwo_def kInvSqrtTwoPi_def OptionGreeks.simps
    by (simp only: simp_thms)
qed

text \<open>
  The reference call of the test suite satisfies the hypotheses of C3; there \<open>d1 = 0.15\<close>
  and \<open>d2 = - 0.05\<close>.
\<close>

theorem black_scholes_call_closed_form_witness:
  "clamped call_option \<and> is_call call_option
   \<and> delta (black_scholes call_option) = 0.5 * erfc (- 0.15 / (6369051672525773 / 2 ^ 52))
   \<and> rho (black_scholes call_option)
       = 100 * exp (- 0.01) * (0.5 * erfc (0.05 / (6369051672525773 / 2 ^ 52)))
   \<and> theta (black_scholes call_option)
       = - (100 * (7186705221432913 / 2 ^ 54 * exp (- 0.5 * 0.15 * 0.15)) * 0.2) / 2
         - 0.01 * 100 * exp (- 0.01) * (0.5 * erfc (0.05 / (6369051672525773 / 2 ^ 52)))"
proof -
  have c: "is_call call_option"
    by (simp add: call_option_def)
  have d1: "(ln (spot call_option / strike call_option)
      + (rate call_option - dividend_yield call_option + 0.5 * (volatility call_option)\<^sup>2)
          * time_to_maturity call_option)
     / (volatility call_option * sqrt (time_to_maturity call_option)) = 0.15"
    by (simp add: call_option_def power2_eq_square)
  show ?thesis
    using black_scholes_call_closed_form [OF clamped_call_option c] clamped_call_option c
    unfolding Let_def d1 by (simp add: call_option_def)
qed

lemma black_scholes_gamma_eq:
  "gamma (black_scholes option) =
     exp (- dividend_yield option * max (time_to_maturity option) (1 / 10 ^ 9))
       * normal_pdf (bs_d1 option)
       / (max (spot option) (1 / 10 ^ 9)
            * (max (volatility option) (1 / 10 ^ 9)
                 * sqrt (max (time_to_maturity option) (1 / 10 ^ 9))))"
proof (cases "is_call option")
  case True
  then show ?thesis
    by (simp only: black_scholes_call [OF True] Let_def OptionGreeks.simps)
next
  case False
  then show ?thesis
    by (simp only: black_scholes_put [OF False] Let_def OptionGreeks.simps)
qed

lemma black_scholes_vega_eq:
  "vega (black_scholes option) =
     max (spot option) (1 / 10 ^ 9)
       * exp (- dividend_yield option * max (time_to_maturity option) (1 / 10 ^ 9))
       * normal_pdf (bs_d1 option) * sqrt (max (time_to_maturity option) (1 / 10 ^ 9))"
proof (cases "is_call option")
  case True
  then show ?thesis
    by (simp only: black_scholes_call [OF True] Let_def OptionGreeks.simps)
next
  case False
  then show ?thesis
    by (simp only: black_scholes_put [OF False] Let_def OptionGreeks.simps)
qed

text \<open>
  C7. For two clamped options that are identical except for the call/put flag,
  \<open>black_scholes\<close> returns the same gamma and the same vega, namely
  \<open>gamma = exp (- q * T) * phi d1 / (S * sigma * sqrt T)\<close> and
  \<open>vega = S * exp (- q * T) * phi d1 * sqrt T\<close>, whichever branch is taken. Here \<open>d1\<close> is
  as in C3 and \<open>phi x = inv_sqrt_two_pi * exp (- 0.5 * x * x)\<close> is the standard normal
  density, with \<open>inv_sqrt_two_pi\<close> the binary64 constant of the program, written out: the
  binary64 number nearest to \<open>1 / sqrt (2 * pi)\<close>.
\<close>

theorem black_scholes_gamma_vega:
  assumes "clamped o1" and "o2 = o1\<lparr>is_call := c\<rparr>"
  shows "gamma (black_scholes o1) = gamma (black_scholes o2)
       \<and> vega (black_scholes o1) = vega (black_scholes o2)
       \<and> (let S = spot o1; K = strike o1; r = rate o1; q = dividend_yield o1;
               sigma = volatility o1; T = time_to_maturity o1;
               d1 = (ln (S / K) + (r - q + 0.5 * sigma\<^sup>2) * T) / (sigma * sqrt T);
               inv_sqrt_two_pi = 7186705221432913 / 2 ^ 54;
               phi = (\<lambda>x. inv_sqrt_two_pi * exp (- 0.5 * x * x))
           in gamma (black_scholes o1) = exp (- q * T) * phi d1 / (S * sigma * sqrt T)
            \<and> vega (black_scholes o1) = S * exp (- q * T) * phi d1 * sqrt T
            \<and> \<bar>inv_sqrt_two_pi - 1 / sqrt (2 * pi)\<bar> < 1 / 2 ^ 55)"
proof -
  have "gamma (black_scholes o1) = gamma (black_scholes o2)"
    and "vega (black_scholes o1) = vega (black_scholes o2)"
    unfolding black_scholes_gamma_eq black_scholes_vega_eq assms(2) by simp_all
  moreover have "gamma (black_scholes o1) =
      exp (- dividend_yield o1 * time_to_maturity o1)
        * (7186705221432913 / 2 ^ 54 * exp (- 0.5 * bs_d1 o1 * bs_d1 o1))
        / (spot o1 * volatility o1 * sqrt (time_to_maturity o1))"
    and "vega (black_scholes o1) =
      spot o1 * exp (- dividend_yield o1 * time_to_maturity o1)
        * (7186705221432913 / 2 ^ 54 * exp (- 0.5 * bs_d1 o1 * bs_d1 o1))
        * sqrt (time_to_maturity o1)"
    unfolding black_scholes_gamma_eq black_scholes_vega_eq clamped_floor [OF assms(1)]
      normal_pdf_def kInvSqrtTwoPi_def
    by (simp_all only: mult.assoc)
  moreover have "\<bar>7186705221432913 / 2 ^ 54 - 1 / sqrt (2 * pi)\<bar> < 1 / 2 ^ 55"
    using kInvSqrtTwoPi_nearest unfolding kInvSqrtTwoPi_def .
  ultimately show ?thesis
    unfolding Let_def bs_d1_clamped [OF assms(1), symmetric] by blast
qed

text \<open>
  The reference call and the put with the same parameters, for C7; there \<open>d1 = 0.15\<close>.
\<close>

theorem black_scholes_gamma_vega_witness:
  "clamped call_option
   \<and> gamma (black_scholes call_option)
       = gamma (black_scholes (call_option\<lparr>is_call := False\<rparr>))
   \<and> vega (black_scholes call_option)
       = vega (black_scholes (call_option\<lparr>is_call := False\<rparr>))
   \<and> gamma (black_scholes call_option)
       = 7186705221432913 / 2 ^ 54 * exp (- 0.5 * 0.15 * 0.15) / (100 * 0.2)
   \<and> vega (black_scholes call_option)
       = 100 * (7186705221432913 / 2 ^ 54 * exp (- 0.5 * 0.15 * 0.15))"
proof -
  have d1: "(ln (spot call_option / strike call_option)
      + (rate call_option - dividend_yield call_option + 0.5 * (volatility call_option)\<^sup>2)
          * time_to_maturity call_option)
     / (volatility call_option * sqrt (time_to_maturity call_option)) = 0.15"
    by (simp add: call_option_def power2_eq_square)
  show ?thesis
    using black_scholes_gamma_vega [OF clamped_call_option refl, of False] clamped_call_option
    unfolding Let_def d1 by (simp add: call_option_def)
qed

section \<open>Properties of the implied-volatility solver\<close>

lemma size_t_increment:
  fixes i :: "64 word"
  assumes "i < m"
  shows "unat (i + 1) = Suc (unat i)" and "i + 1 \<le> m" and "i < i + 1"
proof -
  have lt: "unat i < unat m"
    using assms by (simp add: word_less_nat_alt)
  have "unat i + 1 < 2 ^ 64"
    using lt unsigned_less [of m, where 'a = nat] by simp
  then show suc: "unat (i + 1) = Suc (unat i)"
    by (simp add: unat_word_ariths)
  show "i + 1 \<le> m"
    using lt suc by (simp add: word_le_nat_alt)
  show "i < i + 1"
    using suc by (simp add: word_less_nat_alt)
qed

lemma iv_body_unfold:
  "iv_body option target_price tolerance s =
     (if \<bar>iv_diff option target_price s\<bar> < tolerance
      then s\<lparr>mid := iv_mid s, converged := True\<rparr>
      else if iv_diff option target_price s > 0
      then (if \<bar>iv_mid s - low s\<bar> < tolerance
            then s\<lparr>mid := iv_mid s, high := iv_mid s, converged := True\<rparr>
            else s\<lparr>mid := iv_mid s, high := iv_mid s, iteration := iteration s + 1\<rparr>)
      else (if \<bar>high s - iv_mid s\<bar> < tolerance
            then s\<lparr>mid := iv_mid s, low := iv_mid s, converged := True\<rparr>
            else s\<lparr>mid := iv_mid s, low := iv_mid s, iteration := iteration s + 1\<rparr>))"
  unfolding iv_body_def iv_diff_def iv_mid_def Let_def
  by (simp)

lemma iv_loop_stop:
  assumes "\<not> (iteration s < max_iterations \<and> \<not> converged s)"
  shows "iv_loop option target_price tolerance max_iterations s = s"
    and "iv_trace option target_price tolerance max_iterations s = []"
  using assms
  by (auto simp: iv_loop.simps [of _ _ _ _ s] iv_trace.simps [of _ _ _ _ s])

lemma iv_loop_step:
  assumes "iteration s < max_iterations" and "\<not> converged s"
  shows "iv_loop option target_price tolerance max_iterations s =
           iv_loop option target_price tolerance max_iterations
             (iv_body option target_price tolerance s)"
    and "iv_trace option target_price tolerance max_iterations s =
           iv_body option target_price tolerance s
             # iv_trace option target_price tolerance max_iterations
                 (iv_body option target_price tolerance s)"
  using assms
  by (simp_all add: iv_loop.simps [of _ _ _ _ s] iv_trace.simps [of _ _ _ _ s])

lemma iv_loop_last:
  "iv_loop option target_price tolerance max_iterations s =
     last (s # iv_trace option target_price tolerance max_iterations s)"
proof (induction option target_price tolerance max_iterations s rule: iv_loop.induct)
  case (1 option target_price tolerance max_iterations s)
  show ?case
  proof (cases "iteration s < max_iterations \<and> \<not> converged s")
    case True
    then have lt: "iteration s < max_iterations" and nc: "\<not> converged s"
      by simp_all
    show ?thesis
      using 1 [OF True] by (simp only: iv_loop_step [OF lt nc] last.simps list.distinct if_False)
  next
    case False
    then show ?thesis
      by (simp add: iv_loop_stop)
  qed
qed

text \<open>The solver against the bisection of the specification.\<close>

lemma iv_loop_bisection_spec:
  assumes "\<not> converged s" and "iteration s \<le> max_iterations"
    and "n = unat max_iterations - unat (iteration s)"
  shows "(mid (iv_loop option target_price tolerance max_iterations s),
          converged (iv_loop option target_price tolerance max_iterations s)) =
         bisection_spec (\<lambda>v. price (black_scholes (option\<lparr>volatility := v\<rparr>)))
           target_price tolerance n (low s) (high s) (mid s)"
  using assms
proof (induction n arbitrary: s)
  case 0
  then have "\<not> iteration s < max_iterations"
    by (simp add: word_less_nat_alt word_le_nat_alt)
  then show ?case
    using 0 by (simp add: iv_loop_stop)
next
  case (Suc n)
  then have lt: "iteration s < max_iterations"
    by (simp add: word_less_nat_alt)
  note inc = size_t_increment [OF lt]
  let ?b = "iv_body option target_price tolerance s"
  have step: "iv_loop option target_price tolerance max_iterations s =
      iv_loop option target_price tolerance max_iterations ?b"
    using lt Suc.prems(1) by (rule iv_loop_step)
  have m: "(low s + high s) / 2 = iv_mid s"
    by (simp add: iv_mid_def)
  have d: "price (black_scholes (option\<lparr>volatility := iv_mid s\<rparr>)) - target_price
      = iv_diff option target_price s"
    by (simp add: iv_diff_def)
  consider (price) "\<bar>iv_diff option target_price s\<bar> < tolerance"
    | (width_high) "\<not> \<bar>iv_diff option target_price s\<bar> < tolerance"
        "iv_diff option target_price s > 0" "\<bar>iv_mid s - low s\<bar> < tolerance"
    | (width_low) "\<not> \<bar>iv_diff option target_price s\<bar> < tolerance"
        "\<not> iv_diff option target_price s > 0" "\<bar>high s - iv_mid s\<bar> < tolerance"
    | (go_high) "\<not> \<bar>iv_diff option target_price s\<bar> < tolerance"
        "iv_diff option target_price s > 0" "\<not> \<bar>iv_mid s - low s\<bar> < tolerance"
    | (go_low) "\<not> \<bar>iv_diff option target_price s\<bar> < tolerance"
        "\<not> iv_diff option target_price s > 0" "\<not> \<bar>high s - iv_mid s\<bar> < tolerance"
    by blast
  then show ?case
  proof cases
    case price
    then have b: "?b = s\<lparr>mid := iv_mid s, converged := True\<rparr>"
      by (simp only: iv_body_unfold if_True)
    have "iv_loop option target_price tolerance max_iterations ?b = ?b"
      by (rule iv_loop_stop) (simp add: b)
    then show ?thesis
      using price by (simp only: step bisection_spec.simps Let_def m d if_True) (simp add: b)
  next
    case width_high
    then have b: "?b = s\<lparr>mid := iv_mid s, high := iv_mid s, converged := True\<rparr>"
      by (simp only: iv_body_unfold if_True if_False)
    have "iv_loop option target_price tolerance max_iterations ?b = ?b"
      by (rule iv_loop_stop) (simp add: b)
    then show ?thesis
      using width_high
      by (simp only: step bisection_spec.simps Let_def m d if_True if_False) (simp add: b)
  next
    case width_low
    then have b: "?b = s\<lparr>mid := iv_mid s, low := iv_mid s, converged := True\<rparr>"
      by (simp only: iv_body_unfold if_True if_False)
    have "iv_loop option target_price tolerance max_iterations ?b = ?b"
      by (rule iv_loop_stop) (simp add: b)
    then show ?thesis
      using width_low
      by (simp only: step bisection_spec.simps Let_def m d if_True if_False) (simp add: b)
  next
    case go_high
    then have b: "?b = s\<lparr>mid := iv_mid s, high := iv_mid s, iteration := iteration s + 1\<rparr>"
      by (simp only: iv_body_unfold if_True if_False)
    have "(mid (iv_loop option target_price tolerance max_iterations ?b),
           converged (iv_loop option target_price tolerance max_iterations ?b)) =
          bisection_spec (\<lambda>v. price (black_scholes (option\<lparr>volatility := v\<rparr>)))
            target_price tolerance n (low ?b) (high ?b) (mid ?b)"
      using Suc.prems inc by (intro Suc.IH) (simp_all add: b)
    then show ?thesis
      using go_high
      by (simp only: step bisection_spec.simps Let_def m d if_True if_False) (simp add: b)
  next
    case go_low
    then have b: "?b = s\<lparr>mid := iv_mid s, low := iv_mid s, iteration := iteration s + 1\<rparr>"
      by (simp only: iv_body_unfold if_True if_False)
    have "(mid (iv_loop option target_price tolerance max_iterations ?b),
           converged (iv_loop option target_price tolerance max_iterations ?b)) =
          bisection_spec (\<lambda>v. price (black_scholes (option\<lparr>volatility := v\<rparr>)))
            target_price tolerance n (low ?b) (high ?b) (mid ?b)"
      using Suc.prems inc by (intro Suc.IH) (simp_all add: b)
    then show ?thesis
      using go_low
      by (simp only: step bisection_spec.simps Let_def m d if_True if_False) (simp add: b)
  qed
qed

lemma iv_init_simps:
  "low (iv_init lower_bound upper_bound) = lower_bound"
  "high (iv_init lower_bound upper_bound) = upper_bound"
  "mid (iv_init lower_bound upper_bound) = 0"
  "converged (iv_init lower_bound upper_bound) = False"
  "iteration (iv_init lower_bound upper_bound) = 0"
  by (simp_all add: iv_init_def)

text \<open>
  C1. For every option, target price, bounds, tolerance and iteration budget, the
  volatility and the convergence flag that \<open>implied_volatility\<close> returns are those of
  the bisection of the specification, run on the Black-Scholes price of the option with
  its volatility replaced by \<open>mid\<close>, with \<open>max_iterations\<close> iterations at most, from the
  given bounds: it stops converged as soon as \<open>\<bar>price mid - target\<bar> < tolerance\<close> or, after
  narrowing, \<open>\<bar>high - low\<bar> < tolerance\<close>, and returns the last \<open>mid\<close> unconverged only
  when the budget is used up. (With a budget of zero no \<open>mid\<close> is computed and the value
  returned is the initial \<open>0.0\<close>.)
\<close>

theorem implied_volatility_bisection:
  "(r_implied_volatility
      (implied_volatility option target_price lower_bound upper_bound tolerance max_iterations),
    r_converged
      (implied_volatility option target_price lower_bound upper_bound tolerance max_iterations))
   = bisection_spec (\<lambda>v. price (black_scholes (option\<lparr>volatility := v\<rparr>)))
       target_price tolerance (unat max_iterations) lower_bound upper_bound 0"
  using iv_loop_bisection_spec [of "iv_init lower_bound upper_bound" max_iterations
      "unat max_iterations" option target_price tolerance]
  by (simp add: implied_volatility_def Let_def iv_init_simps)

text \<open>Counting the passes.\<close>

lemma iv_body_progress:
  assumes "\<not> converged s"
  shows "converged (iv_body option target_price tolerance s)
           \<and> iteration (iv_body option target_price tolerance s) = iteration s
         \<or> \<not> converged (iv_body option target_price tolerance s)
           \<and> iteration (iv_body option target_price tolerance s) = iteration s + 1"
  using assms by (simp add: iv_body_unfold)

lemma iv_loop_count:
  assumes "\<not> converged s" and "iteration s \<le> max_iterations"
    and "n = unat max_iterations - unat (iteration s)"
  shows "if converged (iv_loop option target_price tolerance max_iterations s)
         then unat (iteration (iv_loop option target_price tolerance max_iterations s)) + 1
                = unat (iteration s)
                  + length (iv_trace option target_price tolerance max_iterations s)
              \<and> iteration (iv_loop option target_price tolerance max_iterations s)
                  < max_iterations
         else iteration (iv_loop option target_price tolerance max_iterations s)
                = max_iterations
              \<and> length (iv_trace option target_price tolerance max_iterations s)
                  = unat max_iterations - unat (iteration s)"
  using assms
proof (induction n arbitrary: s)
  case 0
  then have "\<not> iteration s < max_iterations" and "iteration s = max_iterations"
    by (simp_all add: word_less_nat_alt word_le_nat_alt word_unat_eq_iff)
  then show ?case
    using 0 by (simp add: iv_loop_stop)
next
  case (Suc n)
  then have lt: "iteration s < max_iterations"
    by (simp add: word_less_nat_alt)
  then have lt': "unat (iteration s) < unat max_iterations"
    by (simp add: word_less_nat_alt)
  note inc = size_t_increment [OF lt]
  let ?b = "iv_body option target_price tolerance s"
  note step = iv_loop_step [OF lt Suc.prems(1), of option target_price tolerance]
  from iv_body_progress [OF Suc.prems(1), of option target_price tolerance]
  consider (stop) "converged ?b" "iteration ?b = iteration s"
    | (continue) "\<not> converged ?b" "iteration ?b = iteration s + 1"
    by blast
  then show ?case
  proof cases
    case stop
    then have "\<not> (iteration ?b < max_iterations \<and> \<not> converged ?b)"
      by simp
    note iv_loop_stop [OF this, of option target_price tolerance]
    then show ?thesis
      using stop lt by (simp add: step)
  next
    case continue
    have "if converged (iv_loop option target_price tolerance max_iterations ?b)
         then unat (iteration (iv_loop option target_price tolerance max_iterations ?b)) + 1
                = unat (iteration ?b)
                  + length (iv_trace option target_price tolerance max_iterations ?b)
              \<and> iteration (iv_loop option target_price tolerance max_iterations ?b)
                  < max_iterations
         else iteration (iv_loop option target_price tolerance max_iterations ?b)
                = max_iterations
              \<and> length (iv_trace option target_price tolerance max_iterations ?b)
                  = unat max_iterations - unat (iteration ?b)"
      using Suc.prems continue inc by (intro Suc.IH) simp_all
    then show ?thesis
      using continue inc lt' by (simp add: step split: if_splits)
  qed
qed

lemma iv_body_nonpos_tolerance:
  assumes "tolerance \<le> 0"
  shows "converged (iv_body option target_price tolerance s) = converged s"
proof -
  have "\<not> \<bar>x\<bar> < tolerance" for x :: real
    using assms by arith
  then show ?thesis
    by (simp only: iv_body_unfold if_False) simp
qed

lemma iv_loop_nonpos_tolerance:
  assumes "tolerance \<le> 0"
  shows "converged (iv_loop option target_price tolerance max_iterations s) = converged s"
  using assms
proof (induction option target_price tolerance max_iterations s rule: iv_loop.induct)
  case (1 option target_price tolerance max_iterations s)
  show ?case
  proof (cases "iteration s < max_iterations \<and> \<not> converged s")
    case True
    then have lt: "iteration s < max_iterations" and nc: "\<not> converged s"
      by simp_all
    show ?thesis
      using 1(1) [OF True 1(2)] iv_body_nonpos_tolerance [OF 1(2)]
      by (simp only: iv_loop_step [OF lt nc])
  next
    case False
    then show ?thesis
      by (simp add: iv_loop_stop)
  qed
qed

text \<open>
  The reported count against the executed iterations: when the solver stops converged
  the two agree; when the budget is used up the solver has executed \<open>max_iterations\<close>
  iterations and reports \<open>max_iterations + 1\<close>.
\<close>

lemma implied_volatility_iterations:
  "if r_converged
        (implied_volatility option target_price lower_bound upper_bound tolerance
           max_iterations)
   then unat (r_iterations
          (implied_volatility option target_price lower_bound upper_bound tolerance
             max_iterations))
        = length (iv_trace option target_price tolerance max_iterations
                    (iv_init lower_bound upper_bound))
   else r_iterations
          (implied_volatility option target_price lower_bound upper_bound tolerance
             max_iterations)
        = max_iterations + 1
      \<and> length (iv_trace option target_price tolerance max_iterations
                   (iv_init lower_bound upper_bound))
        = unat max_iterations"
proof -
  let ?i = "iv_init lower_bound upper_bound"
  let ?f = "iv_loop option target_price tolerance max_iterations ?i"
  note c = iv_loop_count [of ?i max_iterations "unat max_iterations" option target_price
      tolerance, simplified iv_init_simps, simplified]
  show ?thesis
  proof (cases "converged ?f")
    case True
    with c have "unat (iteration ?f) + 1
        = length (iv_trace option target_price tolerance max_iterations ?i)"
      and lt: "iteration ?f < max_iterations"
      by simp_all
    then show ?thesis
      using True size_t_increment(1) [OF lt]
      by (simp add: implied_volatility_def Let_def)
  next
    case False
    with c show ?thesis
      by (simp add: implied_volatility_def Let_def)
  qed
qed

text \<open>
  C2. The iteration count that \<open>implied_volatility\<close> reports should be the number of
  iterations it executed, and \<open>max_iterations\<close> when the budget is used up. The code
  departs from this on the exhaustion path: with a tolerance of zero neither stopping rule
  can hold, so a budget of three iterations is used up; the solver executes three
  iterations, does not converge, and reports four.
\<close>

theorem implied_volatility_iterations_exhausted:
  "length (iv_trace call_option 8.433319 0 3 (iv_init (1 / 10 ^ 6) 5)) = 3
   \<and> \<not> r_converged (implied_volatility call_option 8.433319 (1 / 10 ^ 6) 5 0 3)
   \<and> r_iterations (implied_volatility call_option 8.433319 (1 / 10 ^ 6) 5 0 3) = 4"
proof -
  have "\<not> r_converged (implied_volatility call_option 8.433319 (1 / 10 ^ 6) 5 0 3)"
    by (simp add: implied_volatility_def Let_def iv_loop_nonpos_tolerance iv_init_simps)
  then show ?thesis
    using implied_volatility_iterations [of call_option "8.433319" "1 / 10 ^ 6" 5 0 3]
    by simp
qed

section \<open>Properties of the Monte Carlo simulator\<close>

lemma uint32_increment:
  fixes i :: "32 word"
  assumes "i < m"
  shows "unat (i + 1) = Suc (unat i)" and "i + 1 \<le> m"
proof -
  have lt: "unat i < unat m"
    using assms by (simp add: word_less_nat_alt)
  have "unat i + 1 < 2 ^ 32"
    using lt unsigned_less [of m, where 'a = nat] by simp
  then show suc: "unat (i + 1) = Suc (unat i)"
    by (simp add: unat_word_ariths)
  show "i + 1 \<le> m"
    using lt suc by (simp add: word_le_nat_alt)
qed

lemma mc_simulate_eq:
  assumes "i \<le> paths" and "n = unat paths - unat i"
  shows "mc_simulate draws S K drift diffusion call paths i payoffs payoff_sum =
     (payoffs @ map (\<lambda>j. mc_path_payoff S K drift diffusion call (draws j)) [unat i..<unat paths],
      payoff_sum + sum_list (map (\<lambda>j. mc_path_payoff S K drift diffusion call (draws j))
                        [unat i..<unat paths]))"
  using assms
proof (induction n arbitrary: i payoffs payoff_sum)
  case 0
  then have "\<not> i < paths" and "unat i = unat paths"
    by (simp_all add: word_less_nat_alt word_le_nat_alt)
  then show ?case
    by (simp add: mc_simulate.simps [of _ _ _ _ _ _ _ i])
next
  case (Suc n)
  then have lt: "i < paths"
    by (simp add: word_less_nat_alt)
  then have lt': "unat i < unat paths"
    by (simp add: word_less_nat_alt)
  note inc = uint32_increment [OF lt]
  let ?p = "mc_path_payoff S K drift diffusion call (draws (unat i))"
  have "mc_simulate draws S K drift diffusion call paths i payoffs payoff_sum =
        mc_simulate draws S K drift diffusion call paths (i + 1) (payoffs @ [?p]) (payoff_sum + ?p)"
    using lt by (simp add: mc_simulate.simps [of _ _ _ _ _ _ _ i] mc_path_payoff_def Let_def)
  also have "\<dots> =
     ((payoffs @ [?p])
        @ map (\<lambda>j. mc_path_payoff S K drift diffusion call (draws j)) [unat (i + 1)..<unat paths],
      (payoff_sum + ?p)
        + sum_list (map (\<lambda>j. mc_path_payoff S K drift diffusion call (draws j))
                     [unat (i + 1)..<unat paths]))"
    using Suc.prems inc by (intro Suc.IH) simp_all
  also have "\<dots> =
     (payoffs @ map (\<lambda>j. mc_path_payoff S K drift diffusion call (draws j)) [unat i..<unat paths],
      payoff_sum + sum_list (map (\<lambda>j. mc_path_payoff S K drift diffusion call (draws j))
                        [unat i..<unat paths]))"
    using lt' by (simp add: inc upt_conv_Cons)
  finally show ?case .
qed

lemma mc_variance_sum_eq:
  "mc_variance_sum mean_payoff payoffs = (\<Sum>p\<leftarrow>payoffs. (p - mean_payoff)\<^sup>2)"
proof -
  have "fold (\<lambda>payoff variance_sum. variance_sum + (payoff - mean_payoff) * (payoff - mean_payoff))
          payoffs a = a + (\<Sum>p\<leftarrow>payoffs. (p - mean_payoff)\<^sup>2)" for a
    by (induction payoffs arbitrary: a) (simp_all add: power2_eq_square)
  then show ?thesis
    by (simp add: mc_variance_sum_def Let_def)
qed

lemma mc_path_payoff_option:
  "mc_path_payoff (spot option) (strike option)
     ((rate option - dividend_yield option - 0.5 * volatility option * volatility option)
        * time_to_maturity option)
     (volatility option * sqrt (time_to_maturity option)) (is_call option) z
   = mc_payoff option z"
  by (simp add: mc_path_payoff_def mc_payoff_def Let_def)

lemma monte_carlo_price_eq:
  assumes "paths \<noteq> 0"
  shows "monte_carlo_price standard_normal option paths seed =
     (let payoffs = map (\<lambda>j. mc_payoff option (standard_normal seed j)) [0..<unat paths];
          n = real (unat paths);
          mean_payoff = sum_list payoffs / n;
          variance = (\<Sum>p\<leftarrow>payoffs. (p - mean_payoff)\<^sup>2) / n
      in \<lparr>mc_price = exp (- rate option * time_to_maturity option) * mean_payoff,
          standard_error =
            exp (- rate option * time_to_maturity option) * (sqrt variance / sqrt n)\<rparr>)"
proof -
  have "mc_simulate (standard_normal seed) (spot option) (strike option)
     ((rate option - dividend_yield option - 0.5 * volatility option * volatility option)
        * time_to_maturity option)
     (volatility option * sqrt (time_to_maturity option)) (is_call option) paths 0 [] 0
     = (map (\<lambda>j. mc_payoff option (standard_normal seed j)) [0..<unat paths],
        sum_list (map (\<lambda>j. mc_payoff option (standard_normal seed j)) [0..<unat paths]))"
    by (simp only: mc_simulate_eq [OF word_zero_le refl] mc_path_payoff_option)
      simp
  then show ?thesis
    using assms by (simp add: monte_carlo_price_def Let_def mc_variance_sum_eq)
qed

text \<open>
  C4. For every clamped option, every path count \<open>n \<ge> 1\<close> and every seed,
  \<open>monte_carlo_price\<close> returns the price \<open>exp (- r * T) * mean payoffs\<close> and the standard
  error \<open>exp (- r * T) * (sqrt variance / sqrt n)\<close>, where \<open>payoffs\<close> are the \<open>n\<close> path
  payoffs and \<open>variance\<close> is the mean of their squared deviations from the payoff mean,
  with divisor \<open>n\<close> (the population variance).
\<close>

theorem monte_carlo_price_estimate:
  assumes "clamped option" and "paths \<noteq> 0"
  shows "(let payoffs = map (\<lambda>j. mc_payoff option (standard_normal seed j)) [0..<unat paths];
              n = real (unat paths);
              mean_payoff = sum_list payoffs / n;
              variance = (\<Sum>p\<leftarrow>payoffs. (p - mean_payoff)\<^sup>2) / n;
              result = monte_carlo_price standard_normal option paths seed
          in length payoffs = unat paths \<and> 1 \<le> n
           \<and> mc_price result = exp (- rate option * time_to_maturity option) * mean_payoff
           \<and> standard_error result
               = exp (- rate option * time_to_maturity option) * (sqrt variance / sqrt n))"
proof -
  have "unat paths \<noteq> 0"
    using assms(2) by (simp add: unat_eq_0)
  then have "real 1 \<le> real (unat paths)"
    by (intro of_nat_mono) simp
  then have "1 \<le> real (unat paths)"
    by (simp only: of_nat_1)
  then show ?thesis
    by (simp add: monte_carlo_price_eq [OF assms(2)] Let_def)
qed

text \<open>
  The Monte Carlo test's option with three paths whose variates are \<open>-1\<close>, \<open>0\<close> and
  \<open>1\<close>, for C4.
\<close>

theorem monte_carlo_price_estimate_witness:
  "clamped mc_option \<and> (3 :: 32 word) \<noteq> 0
   \<and> mc_price (monte_carlo_price (\<lambda>seed j. real j - 1) mc_option 3 42)
       = exp (- rate mc_option * time_to_maturity mc_option)
         * (sum_list (map (\<lambda>j. mc_payoff mc_option (real j - 1)) [0..<unat (3 :: 32 word)])
              / real (unat (3 :: 32 word)))"
proof -
  have p: "(3 :: 32 word) \<noteq> 0"
    by simp
  show ?thesis
    using monte_carlo_price_estimate [OF clamped_mc_option p, of "\<lambda>seed j. real j - 1" 42]
      clamped_mc_option p
    unfolding Let_def by blast
qed

text \<open>
  C5. For every option and every seed, \<open>monte_carlo_price\<close> with a path count of zero
  returns the ordinary result record with price 0 and standard error 0.
\<close>

theorem monte_carlo_price_zero_paths:
  "monte_carlo_price standard_normal option 0 seed = \<lparr>mc_price = 0, standard_error = 0\<rparr>"
  by (simp add: monte_carlo_price_def)

end
